theory Spec2Isabelle
  imports Complex_Main "HOL-Library.Sublist"
begin

section \<open>JavaScript values\<close>

text \<open>
  The validators (\<^verbatim>\<open>src/utils/validators.ts\<close>) and the error handler
  (\<^verbatim>\<open>src/utils/error-handler.ts\<close>) are TypeScript, but both test their arguments at run
  time (\<^verbatim>\<open>typeof\<close>, truthiness), and several parameters are typed \<^verbatim>\<open>any\<close>. The model
  therefore works on run-time values.

  A number is a double: a finite value (every finite double is a real number; only comparisons are
  used on it), an infinity or NaN. A string is a sequence of UTF-16 code units; the model takes
  code units below 256, one \<^typ>\<open>char\<close> each, so \<^term>\<open>length\<close> is the \<^verbatim>\<open>.length\<close> of the source.
  An object is the list of its own enumerable properties in the order of \<^verbatim>\<open>Object.entries\<close>.
  Values are finite trees: an object graph with a cycle is outside this type.
\<close>

datatype jsnum = NaN | PosInf | NegInf | Fin real

datatype jsval =
    JUndefined
  | JNull
  | JBool bool
  | JNum jsnum
  | JStr string
  | JArr "jsval list"
  | JObj "(string \<times> jsval) list"
  | JFun

fun typeof :: "jsval \<Rightarrow> string" where
  "typeof JUndefined = ''undefined''"
| "typeof JNull = ''object''"
| "typeof (JBool b) = ''boolean''"
| "typeof (JNum n) = ''number''"
| "typeof (JStr s) = ''string''"
| "typeof (JArr xs) = ''object''"
| "typeof (JObj kvs) = ''object''"
| "typeof JFun = ''function''"

text \<open>\<^verbatim>\<open>!v\<close> is \<open>\<not> truthy v\<close>: undefined, null, false, 0, NaN and the empty string are falsy.\<close>

fun truthy :: "jsval \<Rightarrow> bool" where
  "truthy JUndefined = False"
| "truthy JNull = False"
| "truthy (JBool b) = b"
| "truthy (JNum NaN) = False"
| "truthy (JNum (Fin r)) = (r \<noteq> 0)"
| "truthy (JNum n) = True"
| "truthy (JStr s) = (s \<noteq> [])"
| "truthy (JArr xs) = True"
| "truthy (JObj kvs) = True"
| "truthy JFun = True"

text \<open>The relational operators on numbers: every comparison with NaN is false.\<close>

fun num_lt :: "jsnum \<Rightarrow> jsnum \<Rightarrow> bool" where
  "num_lt NaN b = False"
| "num_lt a NaN = False"
| "num_lt PosInf b = False"
| "num_lt a NegInf = False"
| "num_lt NegInf b = True"
| "num_lt a PosInf = True"
| "num_lt (Fin x) (Fin y) = (x < y)"

definition num_gt :: "jsnum \<Rightarrow> jsnum \<Rightarrow> bool" where
  "num_gt a b = num_lt b a"

fun isFinite :: "jsnum \<Rightarrow> bool" where
  "isFinite (Fin r) = True"
| "isFinite n = False"

text \<open>
  Property access. \<^verbatim>\<open>validateAuthConfig\<close> reads only the names \<^verbatim>\<open>type\<close>, \<^verbatim>\<open>token\<close>,
  \<^verbatim>\<open>key\<close> and \<^verbatim>\<open>value\<close>, none of which an array has.
\<close>

fun getProp :: "jsval \<Rightarrow> string \<Rightarrow> jsval" where
  "getProp (JObj kvs) k = (case map_of kvs k of Some v \<Rightarrow> v | None \<Rightarrow> JUndefined)"
| "getProp v k = JUndefined"

subsection \<open>Strings\<close>

definition upperChar :: "char \<Rightarrow> char" where
  "upperChar c =
     (case map_of (zip ''abcdefghijklmnopqrstuvwxyz'' ''ABCDEFGHIJKLMNOPQRSTUVWXYZ'') c of
        Some u \<Rightarrow> u | None \<Rightarrow> c)"

definition lowerChar :: "char \<Rightarrow> char" where
  "lowerChar c =
     (case map_of (zip ''ABCDEFGHIJKLMNOPQRSTUVWXYZ'' ''abcdefghijklmnopqrstuvwxyz'') c of
        Some l \<Rightarrow> l | None \<Rightarrow> c)"

text \<open>
  \<^verbatim>\<open>String.prototype.toUpperCase\<close> on the letters a to z. Of the code units 128 to 255
  JavaScript maps none to an ASCII letter but U+00DF, which becomes \<^verbatim>\<open>SS\<close>; no method name
  contains \<^verbatim>\<open>SS\<close>, so leaving these code units as they are gives the same whitelist test.
\<close>

definition toUpperCase :: "string \<Rightarrow> string" where
  "toUpperCase s = map upperChar s"

text \<open>
  White space as \<^verbatim>\<open>\s\<close> and \<^verbatim>\<open>trim\<close> read it, among the code units below 256: tab, line
  feed, vertical tab, form feed, carriage return, space and U+00A0.
\<close>

definition isSpace :: "char \<Rightarrow> bool" where
  "isSpace c = (c \<in> set [CHR 0x09, CHR 0x0A, CHR 0x0B, CHR 0x0C, CHR 0x0D, CHR '' '', CHR 0xA0])"

definition trim :: "string \<Rightarrow> string" where
  "trim s = rev (dropWhile isSpace (rev (dropWhile isSpace s)))"

fun startsWith :: "string \<Rightarrow> string \<Rightarrow> bool" where
  "startsWith s [] = True"
| "startsWith [] (p # ps) = False"
| "startsWith (c # cs) (p # ps) = (c = p \<and> startsWith cs ps)"

fun joinWith :: "string \<Rightarrow> string list \<Rightarrow> string" where
  "joinWith sep [] = []"
| "joinWith sep [x] = x"
| "joinWith sep (x # y # ys) = x @ sep @ joinWith sep (y # ys)"

subsection \<open>Regular expressions\<close>

text \<open>
  A pattern is run as a backtracking matcher does: applied to a string it returns the rests that
  can remain after a match at the start, the preferred one first. \<^verbatim>\<open>RegExp.test\<close> only asks
  whether some match exists.
\<close>

type_synonym matcher = "string \<Rightarrow> string list"

definition cls :: "(char \<Rightarrow> bool) \<Rightarrow> matcher" where
  "cls P s = (case s of [] \<Rightarrow> [] | c # r \<Rightarrow> if P c then [r] else [])"

definition sq :: "matcher \<Rightarrow> matcher \<Rightarrow> matcher" where
  "sq m1 m2 s = concat (map m2 (m1 s))"

text \<open>
  \<open>many P\<close> is \<^verbatim>\<open>[P]*\<close> (greedy: the longest run first), \<open>many1 P\<close> is \<^verbatim>\<open>[P]+\<close> and
  \<open>exactly n P\<close> is \<^verbatim>\<open>[P]{n}\<close>.
\<close>

fun many :: "(char \<Rightarrow> bool) \<Rightarrow> matcher" where
  "many P [] = [[]]"
| "many P (c # r) = (if P c then many P r @ [c # r] else [c # r])"

definition many1 :: "(char \<Rightarrow> bool) \<Rightarrow> matcher" where
  "many1 P = sq (cls P) (many P)"

fun exactly :: "nat \<Rightarrow> (char \<Rightarrow> bool) \<Rightarrow> matcher" where
  "exactly 0 P = (\<lambda>s. [s])"
| "exactly (Suc n) P = sq (cls P) (exactly n P)"

text \<open>A literal under the \<^verbatim>\<open>i\<close> flag: each character is compared after ASCII case folding.\<close>

fun lit_i :: "string \<Rightarrow> matcher" where
  "lit_i [] = (\<lambda>s. [s])"
| "lit_i (p # ps) = sq (cls (\<lambda>c. lowerChar c = lowerChar p)) (lit_i ps)"

text \<open>\<open>test_anchored\<close> is \<^verbatim>\<open>/^...$/.test\<close>; \<open>test_search\<close> is \<^verbatim>\<open>/.../.test\<close>, a match at any offset.\<close>

definition test_anchored :: "matcher \<Rightarrow> string \<Rightarrow> bool" where
  "test_anchored m s = ([] \<in> set (m s))"

fun test_search :: "matcher \<Rightarrow> string \<Rightarrow> bool" where
  "test_search m [] = (m [] \<noteq> [])"
| "test_search m (c # r) = (m (c # r) \<noteq> [] \<or> test_search m r)"

definition isDigit :: "char \<Rightarrow> bool" where
  "isDigit c = (c \<in> set ''0123456789'')"

definition isHex_i :: "char \<Rightarrow> bool" where
  "isHex_i c = (lowerChar c \<in> set ''0123456789abcdef'')"

definition isWord :: "char \<Rightarrow> bool" where
  "isWord c = (lowerChar c \<in> set ''abcdefghijklmnopqrstuvwxyz0123456789_'')"

section \<open>The validators\<close>

text \<open>
  Three built-ins of the platform are no part of the repository and are taken as parameters:
  whether \<^verbatim>\<open>new URL(s)\<close> returns (rather than throws), whether \<^verbatim>\<open>JSON.parse(s)\<close> returns, and
  the text a number has inside a template literal. Every property below holds for all of them.
\<close>

record host =
  urlParses :: "string \<Rightarrow> bool"
  jsonParses :: "string \<Rightarrow> bool"
  numberToString :: "jsnum \<Rightarrow> string"

record ValidationResult =
  isValid :: bool
  errors :: "string list"

definition validMethods :: "string list" where
  "validMethods = [''GET'', ''POST'', ''PUT'', ''DELETE'', ''PATCH'', ''HEAD'', ''OPTIONS'']"

definition validateHttpMethod :: "jsval \<Rightarrow> ValidationResult" where
  "validateHttpMethod method =
     (let errors =
        (if \<not> truthy method then [''HTTP method is required'']
         else case method of
           JStr m \<Rightarrow>
             if toUpperCase m \<notin> set validMethods
             then [''HTTP method must be one of: '' @ joinWith '', '' validMethods]
             else []
         | _ \<Rightarrow> [''HTTP method must be a string''])
      in \<lparr>isValid = (length errors = 0), errors = errors\<rparr>)"

text \<open>
  In \<^verbatim>\<open>validateUrl\<close> the two checks after \<^verbatim>\<open>new URL(url)\<close> stand inside the \<^verbatim>\<open>try\<close>: they
  run only when the constructor has returned, and both may add an error.
\<close>

definition validateUrl :: "host \<Rightarrow> jsval \<Rightarrow> ValidationResult" where
  "validateUrl h url =
     (let errors =
        (if \<not> truthy url then [''URL is required'']
         else case url of
           JStr u \<Rightarrow>
             if urlParses h u
             then (if \<not> startsWith u ''https://'' then [''URL must use HTTPS protocol''] else [])
                  @ (if length u > 2000 then [''URL is too long (max 2000 characters)''] else [])
             else [''URL format is invalid'']
         | _ \<Rightarrow> [''URL must be a string''])
      in \<lparr>isValid = (length errors = 0), errors = errors\<rparr>)"

text \<open>An omitted (undefined) argument takes the parameter's default: \<open>None\<close> below.\<close>

definition validateStringLength ::
  "host \<Rightarrow> jsval \<Rightarrow> string \<Rightarrow> jsnum option \<Rightarrow> jsnum option \<Rightarrow> ValidationResult" where
  "validateStringLength h v field minLength_opt maxLength_opt =
     (let minLength = (case minLength_opt of None \<Rightarrow> Fin 1 | Some n \<Rightarrow> n);
          maxLength = (case maxLength_opt of None \<Rightarrow> Fin 1000 | Some n \<Rightarrow> n);
          errors =
            (case v of
               JStr s \<Rightarrow>
                 (if num_lt (Fin (real (length s))) minLength
                  then [field @ '' must be at least '' @ numberToString h minLength
                          @ '' characters long'']
                  else [])
                 @ (if num_gt (Fin (real (length s))) maxLength
                    then [field @ '' must not exceed '' @ numberToString h maxLength
                            @ '' characters'']
                    else [])
             | _ \<Rightarrow> [field @ '' must be a string''])
      in \<lparr>isValid = (length errors = 0), errors = errors\<rparr>)"

text \<open>\<^verbatim>\<open>Number.MAX_SAFE_INTEGER\<close> is \<open>2^53 - 1\<close>.\<close>

definition MAX_SAFE_INTEGER :: jsnum where
  "MAX_SAFE_INTEGER = Fin (2 ^ 53 - 1)"

definition validateNumericRange ::
  "host \<Rightarrow> jsval \<Rightarrow> string \<Rightarrow> jsnum option \<Rightarrow> jsnum option \<Rightarrow> ValidationResult" where
  "validateNumericRange h v field min_opt max_opt =
     (let mn = (case min_opt of None \<Rightarrow> Fin 0 | Some n \<Rightarrow> n);
          mx = (case max_opt of None \<Rightarrow> MAX_SAFE_INTEGER | Some n \<Rightarrow> n);
          errors =
            (case v of
               JNum x \<Rightarrow>
                 if \<not> isFinite x then [field @ '' must be a finite number'']
                 else (if num_lt x mn
                       then [field @ '' must be at least '' @ numberToString h mn]
                       else [])
                      @ (if num_gt x mx
                         then [field @ '' must not exceed '' @ numberToString h mx]
                         else [])
             | _ \<Rightarrow> [field @ '' must be a number''])
      in \<lparr>isValid = (length errors = 0), errors = errors\<rparr>)"

text \<open>
  The UUID pattern
  \<^verbatim>\<open>/^[0-9a-f]{8}-[0-9a-f]{4}-[1-5][0-9a-f]{3}-[89ab][0-9a-f]{3}-[0-9a-f]{12}$/i\<close>
  and the numeric pattern \<^verbatim>\<open>/^\d+$/\<close>.
\<close>

definition dash :: matcher where
  "dash = cls (\<lambda>c. c = CHR ''-'')"

definition uuidPattern :: matcher where
  "uuidPattern =
     sq (exactly 8 isHex_i) (sq dash (sq (exactly 4 isHex_i) (sq dash
       (sq (cls (\<lambda>c. c \<in> set ''12345'')) (sq (exactly 3 isHex_i) (sq dash
       (sq (cls (\<lambda>c. lowerChar c \<in> set ''89ab'')) (sq (exactly 3 isHex_i) (sq dash
       (exactly 12 isHex_i))))))))))"

definition validateDatabaseId :: "jsval \<Rightarrow> ValidationResult" where
  "validateDatabaseId idv =
     (let errors =
        (if \<not> truthy idv then [''ID is required'']
         else case idv of
           JStr s \<Rightarrow>
             (let isUuid = test_anchored uuidPattern s;
                  isNumeric = test_anchored (many1 isDigit) s
              in (if \<not> isUuid \<and> \<not> isNumeric
                  then [''ID must be a valid UUID or numeric identifier''] else [])
                 @ (if length s > 100 then [''ID is too long (max 100 characters)''] else []))
         | _ \<Rightarrow> [''ID must be a string''])
      in \<lparr>isValid = (length errors = 0), errors = errors\<rparr>)"

text \<open>The e-mail pattern \<^verbatim>\<open>/^[^\s@]+@[^\s@]+\.[^\s@]+$/\<close>.\<close>

definition emailRegex :: matcher where
  "emailRegex =
     (let part = many1 (\<lambda>c. \<not> isSpace c \<and> c \<noteq> CHR ''@'')
      in sq part (sq (cls (\<lambda>c. c = CHR ''@'')) (sq part (sq (cls (\<lambda>c. c = CHR ''.'')) part))))"

definition validateEmail :: "jsval \<Rightarrow> ValidationResult" where
  "validateEmail email =
     (let errors =
        (if \<not> truthy email then [''Email is required'']
         else case email of
           JStr s \<Rightarrow>
             (if \<not> test_anchored emailRegex s then [''Email format is invalid''] else [])
             @ (if length s > 254 then [''Email is too long (max 254 characters)''] else [])
         | _ \<Rightarrow> [''Email must be a string''])
      in \<lparr>isValid = (length errors = 0), errors = errors\<rparr>)"

definition validateJson :: "host \<Rightarrow> jsval \<Rightarrow> string \<Rightarrow> ValidationResult" where
  "validateJson h v field =
     (if \<not> truthy v then \<lparr>isValid = True, errors = []\<rparr>
      else
        (let errors =
           (case v of
              JStr s \<Rightarrow> if jsonParses h s then [] else [field @ '' must be valid JSON'']
            | _ \<Rightarrow> [field @ '' must be a string''])
         in \<lparr>isValid = (length errors = 0), errors = errors\<rparr>))"

text \<open>
  The patterns \<^verbatim>\<open>/<script/i\<close>, \<^verbatim>\<open>/javascript:/i\<close>, \<^verbatim>\<open>/on\w+\s*=/i\<close> and \<^verbatim>\<open>/data:/i\<close>. The
  loop over them adds one error at the first that matches and stops.
\<close>

definition suspiciousPatterns :: "matcher list" where
  "suspiciousPatterns =
     [lit_i ''<script'',
      lit_i ''javascript:'',
      sq (lit_i ''on'') (sq (many1 isWord) (sq (many isSpace) (cls (\<lambda>c. c = CHR ''='')))),
      lit_i ''data:'']"

definition validateSearchQuery :: "jsval \<Rightarrow> ValidationResult" where
  "validateSearchQuery query =
     (let errors =
        (if query \<noteq> JUndefined \<and> query \<noteq> JNull then
           (case query of
              JStr q \<Rightarrow>
                (if length (trim q) = 0 then [''Search query cannot be empty''] else [])
                @ (if length q > 500 then [''Search query too long (max 500 characters)''] else [])
                @ (if list_ex (\<lambda>pattern. test_search pattern q) suspiciousPatterns
                   then [''Search query contains invalid characters''] else [])
            | _ \<Rightarrow> [''Search query must be a string''])
         else [])
      in \<lparr>isValid = (length errors = 0), errors = errors\<rparr>)"

definition validatePaginationParams :: "host \<Rightarrow> jsval \<Rightarrow> jsval \<Rightarrow> ValidationResult" where
  "validatePaginationParams h page limit =
     (let errors =
        (if page \<noteq> JUndefined then
           (let pageValidation =
                  validateNumericRange h page ''page'' (Some (Fin 1)) (Some (Fin 10000))
            in if \<not> isValid pageValidation then errors pageValidation else [])
         else [])
        @ (if limit \<noteq> JUndefined then
             (let limitValidation =
                    validateNumericRange h limit ''limit'' (Some (Fin 1)) (Some (Fin 1000))
              in if \<not> isValid limitValidation then errors limitValidation else [])
           else [])
      in \<lparr>isValid = (length errors = 0), errors = errors\<rparr>)"

text \<open>
  \<^verbatim>\<open>validateAuthConfig\<close> takes \<^verbatim>\<open>any\<close>. The falsy test comes first, then the \<^verbatim>\<open>typeof\<close>
  test, then the destructuring of \<^verbatim>\<open>type\<close>, \<^verbatim>\<open>token\<close>, \<^verbatim>\<open>key\<close> and \<^verbatim>\<open>value\<close>.
\<close>

definition authTypes :: "jsval list" where
  "authTypes = [JStr ''bearer'', JStr ''apikey'', JStr ''basic'', JStr ''oauth2'']"

definition validateAuthConfig :: "jsval \<Rightarrow> ValidationResult" where
  "validateAuthConfig authConfig =
     (if \<not> truthy authConfig then \<lparr>isValid = True, errors = []\<rparr>
      else if typeof authConfig \<noteq> ''object''
      then \<lparr>isValid = False, errors = [''Auth config must be an object'']\<rparr>
      else
        (let type = getProp authConfig ''type'';
             token = getProp authConfig ''token'';
             key = getProp authConfig ''key'';
             val = getProp authConfig ''value'';
             errors =
               (if \<not> truthy type then [''Auth type is required'']
                else if type \<notin> set authTypes
                then [''Auth type must be one of: bearer, apikey, basic, oauth2'']
                else [])
               @ (if type = JStr ''bearer'' \<and> \<not> truthy token
                  then [''Bearer token is required for bearer auth''] else [])
               @ (if type = JStr ''apikey'' \<and> (\<not> truthy key \<or> \<not> truthy val)
                  then [''API key and value are required for apikey auth''] else [])
         in \<lparr>isValid = (length errors = 0), errors = errors\<rparr>))"

text \<open>
  The request object of \<^verbatim>\<open>validateApiRequest\<close>; an absent field reads as undefined. The
  field \<^verbatim>\<open>method\<close> is \<open>httpMethod\<close> here.
\<close>

record ApiRequest =
  name :: jsval
  httpMethod :: jsval
  url :: jsval
  description :: jsval
  headers :: jsval
  authConfig :: jsval
  body :: jsval

definition validateApiRequest :: "host \<Rightarrow> ApiRequest \<Rightarrow> ValidationResult" where
  "validateApiRequest h request =
     (let errors =
        (if \<not> truthy (name request) then [''API name is required'']
         else
           (let nameValidation =
                  validateStringLength h (name request) ''name'' (Some (Fin 1)) (Some (Fin 200))
            in if \<not> isValid nameValidation then errors nameValidation else []))
        @ (if \<not> truthy (httpMethod request) then [''HTTP method is required'']
           else
             (let methodValidation = validateHttpMethod (httpMethod request)
              in if \<not> isValid methodValidation then errors methodValidation else []))
        @ (if \<not> truthy (url request) then [''URL is required'']
           else
             (let urlValidation = validateUrl h (url request)
              in if \<not> isValid urlValidation then errors urlValidation else []))
        @ (if truthy (description request) then
             (let descValidation =
                    validateStringLength h (description request) ''description''
                      (Some (Fin 0)) (Some (Fin 1000))
              in if \<not> isValid descValidation then errors descValidation else [])
           else [])
        @ (if truthy (authConfig request) then
             (let authValidation = validateAuthConfig (authConfig request)
              in if \<not> isValid authValidation then errors authValidation else [])
           else [])
        @ (if truthy (headers request) \<and> typeof (headers request) = ''string'' then
             (let headersValidation = validateJson h (headers request) ''headers''
              in if \<not> isValid headersValidation then errors headersValidation else [])
           else [])
        @ (if truthy (body request) \<and> typeof (body request) = ''string'' then
             (let bodyValidation = validateJson h (body request) ''body''
              in if \<not> isValid bodyValidation then errors bodyValidation else [])
           else [])
      in \<lparr>isValid = (length errors = 0), errors = errors\<rparr>)"

definition combineValidations :: "ValidationResult list \<Rightarrow> ValidationResult" where
  "combineValidations validations =
     (let allErrors = concat (map errors validations)
      in \<lparr>isValid = (length allErrors = 0), errors = allErrors\<rparr>)"

section \<open>The error handler\<close>





record 'a SuccessResponse =
  success_s :: bool
  data :: 'a
  timestamp_s :: string



subsection \<open>Sanitizing a message\<close>















subsection \<open>Sanitizing the details\<close>

text \<open>
  \<^verbatim>\<open>Object.entries\<close> of an object gives its properties, of an array its elements under their
  indices written in decimal.
\<close>

fun showNat :: "nat \<Rightarrow> string" where
  "showNat n =
     (if n < 10 then [''0123456789'' ! n]
      else showNat (n div 10) @ [''0123456789'' ! (n mod 10)])"

declare showNat.simps [simp del]








subsection \<open>Responses\<close>







section \<open>Sample inputs\<close>

text \<open>
  Concrete inputs for the evaluations below. \<open>sampleHost\<close> stands for the platform on the few
  strings that are evaluated: it takes for a URL what starts with \<^verbatim>\<open>https://api.\<close> or
  \<^verbatim>\<open>http://api.\<close>, for JSON the text \<^verbatim>\<open>{}\<close>, and prints the natural numbers in decimal.
  The two requests are those of the repository's tests of \<^verbatim>\<open>validateApiRequest\<close>.
\<close>

definition sampleHost :: host where
  "sampleHost =
     \<lparr>urlParses = (\<lambda>s. startsWith s ''https://api.'' \<or> startsWith s ''http://api.''),
      jsonParses = (\<lambda>s. s = ''{}''),
      numberToString = (\<lambda>n. case n of Fin r \<Rightarrow> showNat (nat \<lfloor>r\<rfloor>) | _ \<Rightarrow> ''NaN'')\<rparr>"

definition emptyRequest :: ApiRequest where
  "emptyRequest =
     \<lparr>name = JUndefined, httpMethod = JUndefined, url = JUndefined, description = JUndefined,
      headers = JUndefined, authConfig = JUndefined, body = JUndefined\<rparr>"

definition usersRequest :: ApiRequest where
  "usersRequest =
     \<lparr>name = JStr ''Get Users'', httpMethod = JStr ''GET'',
      url = JStr ''https://api.example.com/users'',
      description = JStr ''Retrieve all users'',
      headers = JObj [(''Content-Type'', JStr ''application/json'')],
      authConfig = JObj [(''type'', JStr ''bearer''), (''token'', JStr ''abc123'')],
      body = JUndefined\<rparr>"

section \<open>Properties of the validators\<close>

lemma sampleHost_simps:
  "urlParses sampleHost s = (startsWith s ''https://api.'' \<or> startsWith s ''http://api.'')"
  "jsonParses sampleHost s = (s = ''{}'')"
  "numberToString sampleHost (Fin r) = showNat (nat \<lfloor>r\<rfloor>)"
  by (simp_all add: sampleHost_def)

subsection \<open>A result is valid exactly when it carries no error\<close>

lemma validateHttpMethod_isValid:
  "isValid (validateHttpMethod v) = (errors (validateHttpMethod v) = [])"
  by (simp add: validateHttpMethod_def Let_def)

lemma validateUrl_isValid: "isValid (validateUrl h v) = (errors (validateUrl h v) = [])"
  by (simp add: validateUrl_def Let_def)

lemma validateStringLength_isValid:
  "isValid (validateStringLength h v f mn mx) = (errors (validateStringLength h v f mn mx) = [])"
  by (simp add: validateStringLength_def Let_def)

lemma validateNumericRange_isValid:
  "isValid (validateNumericRange h v f mn mx) = (errors (validateNumericRange h v f mn mx) = [])"
  by (simp add: validateNumericRange_def Let_def)

lemma validateDatabaseId_isValid:
  "isValid (validateDatabaseId v) = (errors (validateDatabaseId v) = [])"
  by (simp add: validateDatabaseId_def Let_def)

lemma validateEmail_isValid: "isValid (validateEmail v) = (errors (validateEmail v) = [])"
  by (simp add: validateEmail_def Let_def)

lemma validateJson_isValid: "isValid (validateJson h v f) = (errors (validateJson h v f) = [])"
  by (simp add: validateJson_def Let_def)

lemma validateSearchQuery_isValid:
  "isValid (validateSearchQuery v) = (errors (validateSearchQuery v) = [])"
  by (simp add: validateSearchQuery_def Let_def)

lemma validatePaginationParams_isValid:
  "isValid (validatePaginationParams h p l) = (errors (validatePaginationParams h p l) = [])"
  by (simp add: validatePaginationParams_def Let_def)

lemma validateAuthConfig_isValid:
  "isValid (validateAuthConfig v) = (errors (validateAuthConfig v) = [])"
  by (simp add: validateAuthConfig_def Let_def)

lemma validateApiRequest_isValid:
  "isValid (validateApiRequest h r) = (errors (validateApiRequest h r) = [])"
  by (simp add: validateApiRequest_def Let_def)

lemma combineValidations_isValid:
  "isValid (combineValidations vs) = (errors (combineValidations vs) = [])"
  by (simp add: combineValidations_def Let_def)

text \<open>
  Claim C4. Each of the twelve validation operations returns a result whose \<open>isValid\<close> field
  is true if and only if its \<open>errors\<close> list is empty, whatever the arguments (of any run-time
  type) and whatever the platform's URL and JSON parsers and number printing do.
\<close>

theorem validation_result_valid_iff_no_errors:
  "isValid (validateHttpMethod v) = (errors (validateHttpMethod v) = []) \<and>
   isValid (validateUrl h v) = (errors (validateUrl h v) = []) \<and>
   isValid (validateStringLength h v f mn mx) = (errors (validateStringLength h v f mn mx) = []) \<and>
   isValid (validateNumericRange h v f mn mx) = (errors (validateNumericRange h v f mn mx) = []) \<and>
   isValid (validateDatabaseId v) = (errors (validateDatabaseId v) = []) \<and>
   isValid (validateEmail v) = (errors (validateEmail v) = []) \<and>
   isValid (validateJson h v f) = (errors (validateJson h v f) = []) \<and>
   isValid (validateSearchQuery v) = (errors (validateSearchQuery v) = []) \<and>
   isValid (validatePaginationParams h p l) = (errors (validatePaginationParams h p l) = []) \<and>
   isValid (validateAuthConfig v) = (errors (validateAuthConfig v) = []) \<and>
   isValid (validateApiRequest h r) = (errors (validateApiRequest h r) = []) \<and>
   isValid (combineValidations vs) = (errors (combineValidations vs) = [])"
  by (intro conjI validateHttpMethod_isValid validateUrl_isValid validateStringLength_isValid
      validateNumericRange_isValid validateDatabaseId_isValid validateEmail_isValid
      validateJson_isValid validateSearchQuery_isValid validatePaginationParams_isValid
      validateAuthConfig_isValid validateApiRequest_isValid combineValidations_isValid)

theorem validation_result_valid_iff_no_errors_witness:
  "isValid (validateHttpMethod (JStr ''GET'')) \<and> errors (validateHttpMethod (JStr ''GET'')) = []
   \<and> \<not> isValid (validateUrl sampleHost (JStr ''GET''))
   \<and> errors (validateUrl sampleHost (JStr ''GET'')) = [''URL format is invalid'']
   \<and> \<not> isValid (validateAuthConfig (JStr ''GET''))
   \<and> errors (validateAuthConfig (JStr ''GET'')) = [''Auth config must be an object'']"
  using validation_result_valid_iff_no_errors
    [of "JStr ''GET''" sampleHost "''f''" None None JUndefined JUndefined emptyRequest "[]"]
  by (simp add: validateHttpMethod_def validMethods_def toUpperCase_def upperChar_def
      validateUrl_def sampleHost_simps validateAuthConfig_def)

subsection \<open>The HTTP method\<close>

lemma whitelist_text:
  "''HTTP method must be one of: '' @ joinWith '', '' validMethods
     = ''HTTP method must be one of: GET, POST, PUT, DELETE, PATCH, HEAD, OPTIONS''"
  by (simp add: validMethods_def)

lemma set_validMethods:
  "set validMethods = {''GET'', ''POST'', ''PUT'', ''DELETE'', ''PATCH'', ''HEAD'', ''OPTIONS''}"
  unfolding validMethods_def by (simp only: list.set)

lemma errors_validateHttpMethod:
  "errors (validateHttpMethod (JStr m)) =
     (if m = [] then [''HTTP method is required'']
      else if toUpperCase m \<in> set validMethods then []
      else [''HTTP method must be one of: '' @ joinWith '', '' validMethods])"
  unfolding validateHttpMethod_def Let_def by simp

lemma toUpperCase_Nil_iff: "toUpperCase m = [] \<longleftrightarrow> m = []"
  by (simp add: toUpperCase_def)

lemma Nil_notin_validMethods: "[] \<notin> set validMethods"
  by (simp add: validMethods_def)

text \<open>
  Claim C5. For every string \<open>m\<close>, \<open>validateHttpMethod\<close> is valid exactly when \<open>m\<close> in upper
  case is one of GET, POST, PUT, DELETE, PATCH, HEAD, OPTIONS. The empty string gets the one error
  \<^verbatim>\<open>HTTP method is required\<close>, every other string outside the whitelist the one error that
  lists the whitelist, and a string inside it no error.
\<close>

theorem validateHttpMethod_whitelist:
  "errors (validateHttpMethod (JStr m)) =
     (if m = [] then [''HTTP method is required'']
      else if toUpperCase m \<in> {''GET'', ''POST'', ''PUT'', ''DELETE'', ''PATCH'', ''HEAD'', ''OPTIONS''}
      then []
      else [''HTTP method must be one of: GET, POST, PUT, DELETE, PATCH, HEAD, OPTIONS''])
   \<and> isValid (validateHttpMethod (JStr m)) =
       (toUpperCase m \<in> {''GET'', ''POST'', ''PUT'', ''DELETE'', ''PATCH'', ''HEAD'', ''OPTIONS''})"
proof -
  let ?W = "{''GET'', ''POST'', ''PUT'', ''DELETE'', ''PATCH'', ''HEAD'', ''OPTIONS''}"
  have e: "errors (validateHttpMethod (JStr m)) =
     (if m = [] then [''HTTP method is required'']
      else if toUpperCase m \<in> ?W then []
      else [''HTTP method must be one of: GET, POST, PUT, DELETE, PATCH, HEAD, OPTIONS''])"
    by (simp only: errors_validateHttpMethod whitelist_text set_validMethods)
  have n: "m = [] \<Longrightarrow> toUpperCase m \<notin> ?W"
    using Nil_notin_validMethods toUpperCase_Nil_iff [of m] by (simp only: set_validMethods) metis
  have v: "isValid (validateHttpMethod (JStr m)) = (errors (validateHttpMethod (JStr m)) = [])"
    by (rule validateHttpMethod_isValid)
  have "isValid (validateHttpMethod (JStr m)) = (toUpperCase m \<in> ?W)"
  proof (cases "m = []")
    case True
    then show ?thesis using n e v by (simp only: if_True) simp
  next
    case False
    then show ?thesis unfolding v e by (simp only: if_False split: if_split) simp
  qed
  with e show ?thesis by (rule_tac conjI)
qed

theorem validateHttpMethod_whitelist_witness:
  "isValid (validateHttpMethod (JStr ''patch''))
   \<and> errors (validateHttpMethod (JStr ''patch'')) = []
   \<and> \<not> isValid (validateHttpMethod (JStr ''FETCH''))
   \<and> errors (validateHttpMethod (JStr ''FETCH''))
       = [''HTTP method must be one of: GET, POST, PUT, DELETE, PATCH, HEAD, OPTIONS'']
   \<and> \<not> isValid (validateHttpMethod (JStr []))
   \<and> errors (validateHttpMethod (JStr [])) = [''HTTP method is required'']"
  using validateHttpMethod_whitelist [of "''patch''"] validateHttpMethod_whitelist [of "''FETCH''"]
    validateHttpMethod_whitelist [of "[]"]
  by (simp add: toUpperCase_def upperChar_def)

lemma validateHttpMethod_examples:
  "isValid (validateHttpMethod (JStr ''get''))"
  "errors (validateHttpMethod (JStr ''INVALID''))
     = [''HTTP method must be one of: GET, POST, PUT, DELETE, PATCH, HEAD, OPTIONS'']"
  "errors (validateHttpMethod (JStr [])) = [''HTTP method is required'']"
  "errors (validateHttpMethod (JNum (Fin 123))) = [''HTTP method must be a string'']"
  by (simp_all add: validateHttpMethod_def validMethods_def toUpperCase_def upperChar_def)

subsection \<open>The URL\<close>

text \<open>
  Claim C6. For every string \<open>u\<close>, \<open>validateUrl\<close> is valid exactly when \<open>u\<close> is not empty,
  \<^verbatim>\<open>new URL(u)\<close> accepts it, it starts with \<^verbatim>\<open>https://\<close> and it has at most 2000 characters.
  The empty string gets the one error \<^verbatim>\<open>URL is required\<close>; a string the URL parser refuses
  gets the one error \<^verbatim>\<open>URL format is invalid\<close>; a parsed URL that does not start with
  \<^verbatim>\<open>https://\<close> gets \<^verbatim>\<open>URL must use HTTPS protocol\<close>, and one longer than 2000 characters the
  length error (both, when both apply).
\<close>

theorem validateUrl_https:
  "errors (validateUrl h (JStr u)) =
     (if u = [] then [''URL is required'']
      else if \<not> urlParses h u then [''URL format is invalid'']
      else (if startsWith u ''https://'' then [] else [''URL must use HTTPS protocol''])
           @ (if length u \<le> 2000 then [] else [''URL is too long (max 2000 characters)'']))
   \<and> isValid (validateUrl h (JStr u)) =
       (u \<noteq> [] \<and> urlParses h u \<and> startsWith u ''https://'' \<and> length u \<le> 2000)"
  by (auto simp add: validateUrl_def Let_def)

theorem validateUrl_https_witness:
  "isValid (validateUrl sampleHost (JStr ''https://api.example.com/v1/users''))
   \<and> errors (validateUrl sampleHost (JStr ''http://api.example.com''))
       = [''URL must use HTTPS protocol'']
   \<and> errors (validateUrl sampleHost (JStr ''not-a-url'')) = [''URL format is invalid'']
   \<and> errors (validateUrl sampleHost (JStr [])) = [''URL is required'']"
  using validateUrl_https [of sampleHost "''https://api.example.com/v1/users''"]
    validateUrl_https [of sampleHost "''http://api.example.com''"]
    validateUrl_https [of sampleHost "''not-a-url''"]
    validateUrl_https [of sampleHost "[]"]
  by (simp add: sampleHost_simps)

subsection \<open>The request\<close>

lemma failed_errors:
  "isValid v = (errors v = []) \<Longrightarrow> (if \<not> isValid v then errors v else []) = errors v"
  by simp

lemma errors_validateApiRequest:
  "errors (validateApiRequest h r) =
     (if \<not> truthy (name r) then [''API name is required'']
      else errors (validateStringLength h (name r) ''name'' (Some (Fin 1)) (Some (Fin 200))))
     @ (if \<not> truthy (httpMethod r) then [''HTTP method is required'']
        else errors (validateHttpMethod (httpMethod r)))
     @ (if \<not> truthy (url r) then [''URL is required'']
        else errors (validateUrl h (url r)))
     @ (if truthy (description r)
        then errors (validateStringLength h (description r) ''description''
                       (Some (Fin 0)) (Some (Fin 1000)))
        else [])
     @ (if truthy (authConfig r) then errors (validateAuthConfig (authConfig r)) else [])
     @ (if truthy (headers r) \<and> typeof (headers r) = ''string''
        then errors (validateJson h (headers r) ''headers'') else [])
     @ (if truthy (body r) \<and> typeof (body r) = ''string''
        then errors (validateJson h (body r) ''body'') else [])"
  unfolding validateApiRequest_def Let_def failed_errors [OF validateStringLength_isValid]
    failed_errors [OF validateHttpMethod_isValid] failed_errors [OF validateUrl_isValid]
    failed_errors [OF validateJson_isValid] failed_errors [OF validateAuthConfig_isValid]
  by (simp only: ValidationResult.select_convs)

lemma required_part_Nil: "((if \<not> t then [msg] else e) = []) = (t \<and> e = [])"
  by simp

lemma optional_part_Nil: "((if t then e else []) = []) = (t \<longrightarrow> e = [])"
  by simp

lemma falsy_absent_or_empty: "v = JUndefined \<or> v = JStr [] \<Longrightarrow> \<not> truthy v"
  by auto

text \<open>
  Claim C7. For every request in which the name, the method or the URL is absent (undefined) or
  the empty string, \<open>validateApiRequest\<close> is not valid and its errors contain the message of
  that field: \<^verbatim>\<open>API name is required\<close>, \<^verbatim>\<open>HTTP method is required\<close>, \<^verbatim>\<open>URL is required\<close>.
  A request is accepted exactly when its name is present with 1 to 200 characters, its method and
  its URL are present and pass their validators, and no optional field that is checked fails: a
  present description has at most 1000 characters, a present auth config passes
  \<open>validateAuthConfig\<close>, and headers and body that are non-empty strings are JSON.
\<close>

theorem validateApiRequest_required_fields:
  "(name r = JUndefined \<or> name r = JStr [] \<longrightarrow>
      \<not> isValid (validateApiRequest h r)
      \<and> ''API name is required'' \<in> set (errors (validateApiRequest h r)))
   \<and> (httpMethod r = JUndefined \<or> httpMethod r = JStr [] \<longrightarrow>
      \<not> isValid (validateApiRequest h r)
      \<and> ''HTTP method is required'' \<in> set (errors (validateApiRequest h r)))
   \<and> (url r = JUndefined \<or> url r = JStr [] \<longrightarrow>
      \<not> isValid (validateApiRequest h r)
      \<and> ''URL is required'' \<in> set (errors (validateApiRequest h r)))
   \<and> isValid (validateApiRequest h r) =
       (truthy (name r)
        \<and> isValid (validateStringLength h (name r) ''name'' (Some (Fin 1)) (Some (Fin 200)))
        \<and> truthy (httpMethod r) \<and> isValid (validateHttpMethod (httpMethod r))
        \<and> truthy (url r) \<and> isValid (validateUrl h (url r))
        \<and> (truthy (description r) \<longrightarrow>
             isValid (validateStringLength h (description r) ''description''
                        (Some (Fin 0)) (Some (Fin 1000))))
        \<and> (truthy (authConfig r) \<longrightarrow> isValid (validateAuthConfig (authConfig r)))
        \<and> (truthy (headers r) \<and> typeof (headers r) = ''string'' \<longrightarrow>
             isValid (validateJson h (headers r) ''headers''))
        \<and> (truthy (body r) \<and> typeof (body r) = ''string'' \<longrightarrow>
             isValid (validateJson h (body r) ''body'')))"
proof (intro conjI impI)
  assume a: "name r = JUndefined \<or> name r = JStr []"
  have f: "\<not> truthy (name r)" using a by (rule falsy_absent_or_empty)
  show "''API name is required'' \<in> set (errors (validateApiRequest h r))"
    unfolding errors_validateApiRequest using f by simp
  then show "\<not> isValid (validateApiRequest h r)"
    unfolding validateApiRequest_isValid by auto
next
  assume a: "httpMethod r = JUndefined \<or> httpMethod r = JStr []"
  have f: "\<not> truthy (httpMethod r)" using a by (rule falsy_absent_or_empty)
  show "''HTTP method is required'' \<in> set (errors (validateApiRequest h r))"
    unfolding errors_validateApiRequest using f by simp
  then show "\<not> isValid (validateApiRequest h r)"
    unfolding validateApiRequest_isValid by auto
next
  assume a: "url r = JUndefined \<or> url r = JStr []"
  have f: "\<not> truthy (url r)" using a by (rule falsy_absent_or_empty)
  show "''URL is required'' \<in> set (errors (validateApiRequest h r))"
    unfolding errors_validateApiRequest using f by simp
  then show "\<not> isValid (validateApiRequest h r)"
    unfolding validateApiRequest_isValid by auto
next
  show "isValid (validateApiRequest h r) =
       (truthy (name r)
        \<and> isValid (validateStringLength h (name r) ''name'' (Some (Fin 1)) (Some (Fin 200)))
        \<and> truthy (httpMethod r) \<and> isValid (validateHttpMethod (httpMethod r))
        \<and> truthy (url r) \<and> isValid (validateUrl h (url r))
        \<and> (truthy (description r) \<longrightarrow>
             isValid (validateStringLength h (description r) ''description''
                        (Some (Fin 0)) (Some (Fin 1000))))
        \<and> (truthy (authConfig r) \<longrightarrow> isValid (validateAuthConfig (authConfig r)))
        \<and> (truthy (headers r) \<and> typeof (headers r) = ''string'' \<longrightarrow>
             isValid (validateJson h (headers r) ''headers''))
        \<and> (truthy (body r) \<and> typeof (body r) = ''string'' \<longrightarrow>
             isValid (validateJson h (body r) ''body'')))"
    unfolding validateApiRequest_isValid errors_validateApiRequest
      validateStringLength_isValid validateHttpMethod_isValid validateUrl_isValid
      validateJson_isValid validateAuthConfig_isValid
    by (simp only: append_is_Nil_conv required_part_Nil optional_part_Nil conj_assoc)
qed

lemma usersRequest_parts:
  "isValid (validateStringLength sampleHost (JStr ''Get Users'') ''name''
              (Some (Fin 1)) (Some (Fin 200)))"
  "isValid (validateHttpMethod (JStr ''GET''))"
  "isValid (validateUrl sampleHost (JStr ''https://api.example.com/users''))"
  "isValid (validateStringLength sampleHost (JStr ''Retrieve all users'') ''description''
              (Some (Fin 0)) (Some (Fin 1000)))"
  "isValid (validateAuthConfig (JObj [(''type'', JStr ''bearer''), (''token'', JStr ''abc123'')]))"
  by (simp_all add: validateStringLength_def num_gt_def validateHttpMethod_def validMethods_def
      toUpperCase_def upperChar_def validateUrl_def sampleHost_simps validateAuthConfig_def
      authTypes_def)

theorem validateApiRequest_required_fields_witness:
  "\<not> isValid (validateApiRequest sampleHost emptyRequest)
   \<and> ''API name is required'' \<in> set (errors (validateApiRequest sampleHost emptyRequest))
   \<and> ''HTTP method is required'' \<in> set (errors (validateApiRequest sampleHost emptyRequest))
   \<and> ''URL is required'' \<in> set (errors (validateApiRequest sampleHost emptyRequest))
   \<and> isValid (validateApiRequest sampleHost usersRequest)"
  using validateApiRequest_required_fields [of emptyRequest sampleHost]
    validateApiRequest_required_fields [of usersRequest sampleHost] usersRequest_parts
  by (simp add: emptyRequest_def usersRequest_def)

subsection \<open>The auth config\<close>

lemma errors_validateAuthConfig_object:
  "truthy c \<Longrightarrow> typeof c = ''object'' \<Longrightarrow>
   errors (validateAuthConfig c) =
     (if \<not> truthy (getProp c ''type'') then [''Auth type is required'']
      else if getProp c ''type'' \<notin> set authTypes
      then [''Auth type must be one of: bearer, apikey, basic, oauth2'']
      else [])
     @ (if getProp c ''type'' = JStr ''bearer'' \<and> \<not> truthy (getProp c ''token'')
        then [''Bearer token is required for bearer auth''] else [])
     @ (if getProp c ''type'' = JStr ''apikey''
           \<and> (\<not> truthy (getProp c ''key'') \<or> \<not> truthy (getProp c ''value''))
        then [''API key and value are required for apikey auth''] else [])"
  by (simp add: validateAuthConfig_def Let_def)

lemma authTypes_truthy: "t \<in> set authTypes \<Longrightarrow> truthy t"
  by (auto simp add: authTypes_def)

text \<open>
  Claim C8, as the code has it. \<open>validateAuthConfig\<close> accepts every falsy config: undefined
  and null, and also false, 0, NaN and the empty string, which the falsy test lets through before
  the type is looked at. A truthy config that is no object is rejected with the one error
  \<^verbatim>\<open>Auth config must be an object\<close>. A truthy object (an array too) is valid exactly when its
  \<^verbatim>\<open>type\<close> is one of the strings bearer, apikey, basic, oauth2, its \<^verbatim>\<open>token\<close> is truthy when
  the type is bearer, and its \<^verbatim>\<open>key\<close> and \<^verbatim>\<open>value\<close> are truthy when the type is apikey.
\<close>

theorem validateAuthConfig_shape:
  "(\<not> truthy c \<longrightarrow> validateAuthConfig c = \<lparr>isValid = True, errors = []\<rparr>)
   \<and> (truthy c \<and> typeof c \<noteq> ''object'' \<longrightarrow>
        validateAuthConfig c = \<lparr>isValid = False, errors = [''Auth config must be an object'']\<rparr>)
   \<and> (truthy c \<and> typeof c = ''object'' \<longrightarrow>
        isValid (validateAuthConfig c) =
          (getProp c ''type'' \<in> {JStr ''bearer'', JStr ''apikey'', JStr ''basic'', JStr ''oauth2''}
           \<and> (getProp c ''type'' = JStr ''bearer'' \<longrightarrow> truthy (getProp c ''token''))
           \<and> (getProp c ''type'' = JStr ''apikey'' \<longrightarrow>
                truthy (getProp c ''key'') \<and> truthy (getProp c ''value''))))"
proof (intro conjI impI)
  assume "\<not> truthy c"
  then show "validateAuthConfig c = \<lparr>isValid = True, errors = []\<rparr>"
    by (simp add: validateAuthConfig_def)
next
  assume "truthy c \<and> typeof c \<noteq> ''object''"
  then show "validateAuthConfig c
      = \<lparr>isValid = False, errors = [''Auth config must be an object'']\<rparr>"
    by (simp add: validateAuthConfig_def)
next
  assume a: "truthy c \<and> typeof c = ''object''"
  have s: "set authTypes = {JStr ''bearer'', JStr ''apikey'', JStr ''basic'', JStr ''oauth2''}"
    unfolding authTypes_def by (simp only: list.set)
  have e: "errors (validateAuthConfig c) = [] \<longleftrightarrow>
      (getProp c ''type'' \<in> set authTypes
           \<and> (getProp c ''type'' = JStr ''bearer'' \<longrightarrow> truthy (getProp c ''token''))
           \<and> (getProp c ''type'' = JStr ''apikey'' \<longrightarrow>
                truthy (getProp c ''key'') \<and> truthy (getProp c ''value'')))"
    using a authTypes_truthy [of "getProp c ''type''"]
    by (auto simp add: errors_validateAuthConfig_object)
  show "isValid (validateAuthConfig c) =
          (getProp c ''type'' \<in> {JStr ''bearer'', JStr ''apikey'', JStr ''basic'', JStr ''oauth2''}
           \<and> (getProp c ''type'' = JStr ''bearer'' \<longrightarrow> truthy (getProp c ''token''))
           \<and> (getProp c ''type'' = JStr ''apikey'' \<longrightarrow>
                truthy (getProp c ''key'') \<and> truthy (getProp c ''value'')))"
    unfolding validateAuthConfig_isValid e s ..
qed

theorem validateAuthConfig_shape_witness:
  "validateAuthConfig JNull = \<lparr>isValid = True, errors = []\<rparr>
   \<and> validateAuthConfig (JStr ''bearer'')
       = \<lparr>isValid = False, errors = [''Auth config must be an object'']\<rparr>
   \<and> isValid (validateAuthConfig (JObj [(''type'', JStr ''bearer''), (''token'', JStr ''abc123'')]))
   \<and> \<not> isValid (validateAuthConfig (JObj [(''type'', JStr ''apikey''), (''key'', JStr ''X-API-Key'')]))"
  using validateAuthConfig_shape [of JNull] validateAuthConfig_shape [of "JStr ''bearer''"]
    validateAuthConfig_shape [of "JObj [(''type'', JStr ''bearer''), (''token'', JStr ''abc123'')]"]
    validateAuthConfig_shape [of "JObj [(''type'', JStr ''apikey''), (''key'', JStr ''X-API-Key'')]"]
  by simp

text \<open>
  The claim as written fails in two places. The empty string is neither null nor undefined and
  is no object, and it is accepted. A bearer config whose \<^verbatim>\<open>token\<close> property is present but
  holds the empty string is rejected.
\<close>

theorem validateAuthConfig_accepts_empty_string:
  "JStr [] \<noteq> JNull \<and> JStr [] \<noteq> JUndefined \<and> typeof (JStr []) \<noteq> ''object''
   \<and> isValid (validateAuthConfig (JStr []))
   \<and> map_of [(''type'', JStr ''bearer''), (''token'', JStr [])] ''token'' = Some (JStr [])
   \<and> \<not> isValid (validateAuthConfig (JObj [(''type'', JStr ''bearer''), (''token'', JStr [])]))"
  by (simp add: validateAuthConfig_def authTypes_def)

section \<open>Properties of the error handler\<close>

subsection \<open>The pattern in closed form\<close>


fun valueOf :: "string option \<Rightarrow> string option" where
  "valueOf None = None"
| "valueOf (Some []) = None"
| "valueOf (Some (c # r)) =
     (if c = CHR ''='' \<or> c = CHR '':'' then
        (case dropWhile isSpace r of
           [] \<Rightarrow> None
         | v # vs \<Rightarrow> Some (takeWhile (\<lambda>c. \<not> isSpace c) (v # vs)))
      else None)"

fun restOf :: "string option \<Rightarrow> string option" where
  "restOf None = None"
| "restOf (Some []) = None"
| "restOf (Some (c # r)) =
     (if c = CHR ''='' \<or> c = CHR '':'' then
        (case dropWhile isSpace r of
           [] \<Rightarrow> None
         | v # vs \<Rightarrow> Some (dropWhile (\<lambda>c. \<not> isSpace c) vs))
      else None)"
















lemma valueOf_restOf_None: "(valueOf a = None) = (restOf a = None)"
  by (cases a rule: valueOf.cases) (simp_all del: dropWhile_eq_Nil_conv split: list.split)


























subsection \<open>A replacement pass keeps what is redacted\<close>










subsection \<open>The sanitized message and details\<close>

























subsection \<open>The responses of the handler\<close>






end
